theory Spec2Isabelle
  imports Complex_Main
begin

section \<open>Commission reconciliation: the statements page and its API client\<close>

text \<open>
  The development embeds the functions of \<^verbatim>\<open>frontend/src/pages/statements.tsx\<close> and of
  the API client that the claims are about. The backend they talk to is not among the
  sources; where a claim is about it, its part is modelled from the specification and
  marked so. A JavaScript number is an exact \<^typ>\<open>real\<close>
  (rounding is not modelled). A numeric field of a response may also be missing
  (\<^verbatim>\<open>undefined\<close>) or \<^verbatim>\<open>null\<close>; the result of arithmetic is a
  \<^typ>\<open>real option\<close> with \<^const>\<open>None\<close> for \<^verbatim>\<open>NaN\<close>.
\<close>

subsection \<open>JavaScript operators on numbers\<close>

datatype jsnum = Undefined | Null | Num real

text \<open>\<^verbatim>\<open>!a\<close>: undefined, null and 0 are falsy.\<close>

definition js_falsy :: "jsnum \<Rightarrow> bool" where
  "js_falsy a = (case a of Undefined \<Rightarrow> True | Null \<Rightarrow> True | Num x \<Rightarrow> x = 0)"

text \<open>The number an operand of \<^verbatim>\<open>+\<close> or \<^verbatim>\<open>/\<close> stands for: null is 0, undefined is NaN.\<close>

definition to_number :: "jsnum \<Rightarrow> real option" where
  "to_number a = (case a of Undefined \<Rightarrow> None | Null \<Rightarrow> Some 0 | Num x \<Rightarrow> Some x)"

text \<open>\<^verbatim>\<open>a || b\<close>: the left operand unless it is falsy.\<close>

definition js_or :: "jsnum \<Rightarrow> jsnum \<Rightarrow> jsnum" where
  "js_or a b = (if js_falsy a then b else a)"

text \<open>\<^verbatim>\<open>a || 0\<close> on a field, whose result is always a number.\<close>

definition num_or0 :: "jsnum \<Rightarrow> real" where
  "num_or0 a = (case a of Undefined \<Rightarrow> 0 | Null \<Rightarrow> 0 | Num x \<Rightarrow> if x = 0 then 0 else x)"

text \<open>
  \<^verbatim>\<open>m[k] || 0\<close> on a \<^verbatim>\<open>Record<number, number>\<close>, the lookup being \<^const>\<open>None\<close>
  when the key is missing.
\<close>

definition js_or0 :: "real option \<Rightarrow> real" where
  "js_or0 a = (case a of None \<Rightarrow> 0 | Some x \<Rightarrow> if x = 0 then 0 else x)"

text \<open>\<^verbatim>\<open>a + b\<close> with a number on the right.\<close>

definition js_plus :: "jsnum \<Rightarrow> real \<Rightarrow> real option" where
  "js_plus a b = map_option (\<lambda>x. x + b) (to_number a)"

subsection \<open>The monthly-pay view\<close>

text \<open>
  One entry of \<^verbatim>\<open>data.agent_summaries\<close>, with the fields that
  \<^verbatim>\<open>getAdjustedCommission\<close> reads.
\<close>

record agent =
  agent_id :: nat
  net_agent_commission :: jsnum
  total_agent_commission :: jsnum
  commission_rate :: jsnum

text \<open>
  The component state \<^verbatim>\<open>rateAdjustments\<close> and \<^verbatim>\<open>bonuses\<close>
  (\<^verbatim>\<open>Record<number, number>\<close>): association lists, read with \<^const>\<open>map_of\<close>.
\<close>

type_synonym overrides = "(nat \<times> real) list"

definition getAdjustment :: "overrides \<Rightarrow> nat \<Rightarrow> real" where
  "getAdjustment rateAdjustments agentId = js_or0 (map_of rateAdjustments agentId)"

definition getBonus :: "overrides \<Rightarrow> nat \<Rightarrow> real" where
  "getBonus bonuses agentId = js_or0 (map_of bonuses agentId)"

definition basePay :: "agent \<Rightarrow> jsnum" where
  "basePay a = js_or (net_agent_commission a) (total_agent_commission a)"

definition getAdjustedCommission :: "overrides \<Rightarrow> overrides \<Rightarrow> agent \<Rightarrow> real option" where
  "getAdjustedCommission rateAdjustments bonuses a =
     (let adj = getAdjustment rateAdjustments (agent_id a);
          bonus = getBonus bonuses (agent_id a)
      in if adj = 0 then js_plus (basePay a) bonus
         else case commission_rate a of
                Undefined \<Rightarrow> js_plus (basePay a) bonus
              | Null \<Rightarrow> js_plus (basePay a) bonus
              | Num baseRate \<Rightarrow>
                  if baseRate = 0 then js_plus (basePay a) bonus
                  else map_option (\<lambda>b. (b / baseRate) * (baseRate + adj) + bonus)
                         (to_number (basePay a)))"

subsection \<open>Strings of numbers\<close>

text \<open>
  \<^verbatim>\<open>String(n)\<close> and the template literal \<^verbatim>\<open>`${n}`\<close> for a non-negative integer
  (an agent id, a row count): its decimal digits.
\<close>

definition digit :: "nat \<Rightarrow> char" where
  "digit d = ''0123456789'' ! d"

fun show_nat :: "nat \<Rightarrow> string" where
  "show_nat n = (if n < 10 then [digit n] else show_nat (n div 10) @ [digit (n mod 10)])"

declare show_nat.simps [simp del]


subsection \<open>Payroll submit: the override map sent with the request\<close>



record override =
  rate_adjustment :: real
  bonus :: real

text \<open>The object \<^verbatim>\<open>agentOverrides\<close>, keyed by \<^verbatim>\<open>String(id)\<close>.\<close>

type_synonym agent_overrides = "string \<rightharpoonup> override"






subsection \<open>The agent sheet request and its PDF variant\<close>




definition agentSheetPdfUrl :: "string \<Rightarrow> nat \<Rightarrow> string" where
  "agentSheetPdfUrl payPeriod agentId =
     ''/api/reconciliation/agent-sheet/'' @ payPeriod @ ''/'' @ show_nat agentId @ ''/pdf''"

text \<open>
  The props \<^verbatim>\<open>rateAdjustment = 0\<close> and \<^verbatim>\<open>bonus = 0\<close> of
  \<^verbatim>\<open>AgentSheetModal\<close>: the default replaces a missing prop.
\<close>

definition prop_default0 :: "real option \<Rightarrow> real" where
  "prop_default0 p = (case p of None \<Rightarrow> 0 | Some x \<Rightarrow> x)"

text \<open>
  \<^verbatim>\<open>handleDownloadPdf\<close>: the URL it fetches, as the path and the entries of the
  \<^verbatim>\<open>URLSearchParams\<close> (appended after \<^verbatim>\<open>?\<close> only when there is one).
  \<open>str\<close> is \<^verbatim>\<open>String\<close> on numbers.
\<close>

record pdf_request =
  pdf_path :: string
  pdf_query :: "(string \<times> string) list"

definition handleDownloadPdf ::
    "(real \<Rightarrow> string) \<Rightarrow> string \<Rightarrow> string \<Rightarrow> nat \<Rightarrow> real \<Rightarrow> real \<Rightarrow> pdf_request" where
  "handleDownloadPdf str apiBase payPeriod agentId rateAdjustment sheetBonus =
     \<lparr>pdf_path = apiBase @ agentSheetPdfUrl payPeriod agentId,
      pdf_query =
        (if rateAdjustment \<noteq> 0 then [(''rate_adjustment'', str rateAdjustment)] else [])
        @ (if sheetBonus \<noteq> 0 then [(''bonus'', str sheetBonus)] else [])\<rparr>"


definition modal_pdf ::
    "(real \<Rightarrow> string) \<Rightarrow> string \<Rightarrow> overrides \<Rightarrow> overrides \<Rightarrow> string \<Rightarrow> nat \<Rightarrow> pdf_request" where
  "modal_pdf str apiBase rateAdjustments bonuses payPeriod agentId =
     handleDownloadPdf str apiBase payPeriod agentId
       (prop_default0 (Some (getAdjustment rateAdjustments agentId)))
       (prop_default0 (Some (getBonus bonuses agentId)))"

subsection \<open>The upload form\<close>

definition CARRIERS :: "(string \<times> string) list" where
  "CARRIERS =
     [(''national_general'', ''National General''),
      (''progressive'', ''Progressive''),
      (''grange'', ''Grange''),
      (''safeco'', ''Safeco''),
      (''travelers'', ''Travelers''),
      (''geico'', ''Geico''),
      (''first_connect'', ''First Connect''),
      (''universal'', ''Universal''),
      (''nbs'', ''NBS / Bridge Specialty''),
      (''hartford'', ''Hartford''),
      (''other'', ''Other'')]"

text \<open>\<^verbatim>\<open>CARRIERS.find(c => c.value === v)?.label || v\<close>.\<close>

definition carrier_label :: "string \<Rightarrow> string" where
  "carrier_label v = (case map_of CARRIERS v of None \<Rightarrow> v | Some l \<Rightarrow> if l = [] then v else l)"

text \<open>
  \<^verbatim>\<open>ImportRecord\<close>. The fields \<^verbatim>\<open>id\<close>, \<^verbatim>\<open>carrier\<close>, \<^verbatim>\<open>period\<close> and
  \<^verbatim>\<open>status\<close> carry a prefix here.
\<close>

record ImportRecord =
  import_id :: nat
  filename :: string
  imp_carrier :: string
  imp_period :: string
  imp_status :: string
  total_rows :: nat
  matched_rows :: nat
  unmatched_rows :: nat
  total_premium :: real
  total_commission :: real
  created_at :: string

text \<open>\<^verbatim>\<open>imports.find(i => i.carrier === carrier && i.period === period)\<close>.\<close>

definition find_existing :: "ImportRecord list \<Rightarrow> string \<Rightarrow> string \<Rightarrow> ImportRecord option" where
  "find_existing imports selCarrier selPeriod =
     find (\<lambda>i. imp_carrier i = selCarrier \<and> imp_period i = selPeriod) imports"

definition newline :: char where
  "newline = CHR 0x0A"

definition duplicate_prompt :: "string \<Rightarrow> string \<Rightarrow> ImportRecord \<Rightarrow> string" where
  "duplicate_prompt selCarrier selPeriod existing =
     carrier_label selCarrier @ '' has already been uploaded for '' @ selPeriod @ '' (''
       @ show_nat (total_rows existing) @ '' rows, '' @ show_nat (matched_rows existing)
       @ '' matched).'' @ [newline, newline] @ ''This will create a second import. Continue?''"

text \<open>The response of the upload endpoint, as far as the page reads it.\<close>

record upload_response =
  res_id :: nat
  carrier_overridden :: bool
  carrier_detected :: string
  carrier_selected :: string

text \<open>
  What a request comes back with: the data of the response, or the rejection with
  \<^verbatim>\<open>err.response?.data?.detail\<close> when there is one.
\<close>

datatype 'a api_result = Failed "string option" | Ok 'a

text \<open>\<^verbatim>\<open>detail || fallback\<close> on an optional string.\<close>

definition detail_or :: "string option \<Rightarrow> string \<Rightarrow> string" where
  "detail_or detail fallback =
     (case detail of None \<Rightarrow> fallback | Some d \<Rightarrow> if d = [] then fallback else d)"

text \<open>What a handler does, in order: dialogs, state updates and requests.\<close>

datatype effect =
    Confirm string
  | Alert string
  | ResetInput
  | SetUploading bool
  | SetActionLoading "string option"
  | Upload string string string
  | Match nat
  | LoadImports
  | SetSelectedImport nat
  | LoadDetail nat

definition override_alert :: "upload_response \<Rightarrow> string" where
  "override_alert res =
     (let detectedLabel = carrier_label (carrier_detected res);
          selectedLabel = carrier_label (carrier_selected res)
      in ''Auto-detected: File looks like '' @ detectedLabel @ '' (you selected ''
           @ selectedLabel @ ''). Used '' @ detectedLabel @ '' parser.'')"

text \<open>
  \<^verbatim>\<open>handleUpload\<close> from \<^verbatim>\<open>setUploading(true)\<close> on; \<open>server\<close> is the outcome of
  \<^verbatim>\<open>reconciliationAPI.upload(carrier, period, file)\<close>.
\<close>

definition do_upload :: "string \<Rightarrow> string \<Rightarrow> string \<Rightarrow> upload_response api_result \<Rightarrow> effect list" where
  "do_upload selCarrier selPeriod file server =
     [SetUploading True, Upload selCarrier selPeriod file]
     @ (case server of
          Ok res \<Rightarrow>
            (if carrier_overridden res then [Alert (override_alert res)] else [])
            @ [LoadImports, SetSelectedImport (res_id res), LoadDetail (res_id res)]
        | Failed detail \<Rightarrow> [Alert (detail_or detail ''Upload failed'')])
     @ [SetUploading False, ResetInput]"

text \<open>
  \<^verbatim>\<open>handleUpload\<close>: \<open>chosen\<close> is \<^verbatim>\<open>e.target.files?.[0]\<close> and \<open>answer\<close> the
  user's answer to the \<^verbatim>\<open>confirm\<close> dialog, should it be shown.
\<close>

definition handleUpload ::
    "ImportRecord list \<Rightarrow> string \<Rightarrow> string \<Rightarrow> string option \<Rightarrow> bool
      \<Rightarrow> upload_response api_result \<Rightarrow> effect list" where
  "handleUpload imports selCarrier selPeriod chosen answer server =
     (case chosen of
        None \<Rightarrow> []
      | Some file \<Rightarrow>
          (case find_existing imports selCarrier selPeriod of
             Some existing \<Rightarrow>
               if \<not> answer
               then [Confirm (duplicate_prompt selCarrier selPeriod existing), ResetInput]
               else Confirm (duplicate_prompt selCarrier selPeriod existing)
                      # do_upload selCarrier selPeriod file server
           | None \<Rightarrow> do_upload selCarrier selPeriod file server))"




subsection \<open>Running the matcher\<close>





subsection \<open>The payroll controls\<close>

text \<open>
  The data of \<^verbatim>\<open>payrollAPI.detail(period)\<close> as \<^verbatim>\<open>PayrollActions\<close> reads it; the
  component state \<^verbatim>\<open>payrollStatus\<close> is \<^verbatim>\<open>null\<close> (\<^const>\<open>None\<close>) when there is no
  record or the request fails.
\<close>

record payroll_status =
  status :: string
  is_locked :: bool
  submitted_at :: "string option"
  paid_at :: "string option"

text \<open>\<^verbatim>\<open>(!payrollStatus || !payrollStatus.is_locked)\<close>: the Submit Payroll button.\<close>

definition shows_submit :: "payroll_status option \<Rightarrow> bool" where
  "shows_submit payrollStatus =
     (case payrollStatus of None \<Rightarrow> True | Some ps \<Rightarrow> \<not> is_locked ps)"

text \<open>\<^verbatim>\<open>payrollStatus?.status === 'submitted'\<close>: the Mark as Paid button.\<close>

definition shows_mark_paid :: "payroll_status option \<Rightarrow> bool" where
  "shows_mark_paid payrollStatus =
     (case payrollStatus of None \<Rightarrow> False | Some ps \<Rightarrow> status ps = ''submitted'')"

text \<open>\<^verbatim>\<open>payrollStatus?.is_locked\<close>: the Unlock button.\<close>

definition shows_unlock :: "payroll_status option \<Rightarrow> bool" where
  "shows_unlock payrollStatus =
     (case payrollStatus of None \<Rightarrow> False | Some ps \<Rightarrow> is_locked ps)"

subsection \<open>The payroll ledger\<close>

text \<open>
  Modelled from the spec: the payroll endpoints \<^verbatim>\<open>submit\<close>, \<^verbatim>\<open>mark_paid\<close> and
  \<^verbatim>\<open>unlock\<close> are served by the backend, which is not among the sources; the client only
  posts to them. The record, the three transitions and their rejections follow the
  spec's sections 3, 4.5 and 7.
\<close>

text \<open>
  Modelled from the spec: the status of a payroll record, \<open>draft\<close> standing for a period that
  was unlocked and is editable again.
\<close>

datatype pay_status = Draft | Submitted | Paid

text \<open>Modelled from the spec: the \<open>commission_status\<close> of a sale, pending or paid.\<close>

datatype sale_commission_status = Pending | CommissionPaid

text \<open>
  Modelled from the spec: what a submit freezes, the result of the commission calculation
  (totals, and the sales whose matched lines contributed) with the override map.
\<close>

record snapshot =
  total_agents :: nat
  snap_total_premium :: real
  total_agent_pay :: real
  contributing_sales :: "nat list"

text \<open>
  Modelled from the spec: the PayrollRecord entity of section 3, kept per period in the
  ledger below.
\<close>

record PayrollRecord =
  pr_status :: pay_status
  pr_is_locked :: bool
  pr_submitted_at :: "nat option"
  pr_paid_at :: "nat option"
  pr_snapshot :: snapshot
  pr_agent_overrides :: agent_overrides

text \<open>
  Modelled from the spec: the state the transitions act on, one record per period and the
  commission status of every sale.
\<close>

record ledger =
  payroll :: "string \<rightharpoonup> PayrollRecord"
  sales :: "nat \<rightharpoonup> sale_commission_status"

text \<open>
  Modelled from the spec: the error of a rejected payroll transition, with its descriptive
  message.
\<close>

datatype payroll_error = PayrollStateConflict string

text \<open>
  Modelled from the spec: submit requires the period not already locked, and creates the
  record on the first submit.
\<close>

definition submit ::
    "nat \<Rightarrow> string \<Rightarrow> agent_overrides \<Rightarrow> snapshot \<Rightarrow> ledger \<Rightarrow> payroll_error + ledger" where
  "submit now payPeriod agentOverrides calc l =
     (let locked = (case payroll l payPeriod of None \<Rightarrow> False | Some r \<Rightarrow> pr_is_locked r)
      in if locked
         then Inl (PayrollStateConflict ''payroll for this period is locked; unlock the period first'')
         else Inr (l\<lparr>payroll := (payroll l)(payPeriod \<mapsto>
                \<lparr>pr_status = Submitted, pr_is_locked = True, pr_submitted_at = Some now,
                 pr_paid_at = None, pr_snapshot = calc,
                 pr_agent_overrides = agentOverrides\<rparr>)\<rparr>))"

text \<open>
  Modelled from the spec: the side effect of mark_paid on the sales, every known sale of the
  run becoming paid and the others staying as they are.
\<close>

definition mark_sales_paid ::
    "nat list \<Rightarrow> (nat \<rightharpoonup> sale_commission_status) \<Rightarrow> (nat \<rightharpoonup> sale_commission_status)" where
  "mark_sales_paid ids m = (\<lambda>i. if i \<in> set ids \<and> m i \<noteq> None then Some CommissionPaid else m i)"

text \<open>
  Modelled from the spec: mark_paid requires status submitted, sets status paid, records the
  time and marks the sales of the run.
\<close>

definition mark_paid :: "nat \<Rightarrow> string \<Rightarrow> ledger \<Rightarrow> payroll_error + ledger" where
  "mark_paid now payPeriod l =
     (case payroll l payPeriod of
        None \<Rightarrow> Inl (PayrollStateConflict ''payroll for this period was never submitted'')
      | Some r \<Rightarrow>
          if pr_status r = Submitted
          then Inr (l\<lparr>payroll := (payroll l)(payPeriod \<mapsto>
                      r\<lparr>pr_status := Paid, pr_paid_at := Some now\<rparr>),
                    sales := mark_sales_paid (contributing_sales (pr_snapshot r)) (sales l)\<rparr>)
          else Inl (PayrollStateConflict ''payroll for this period is not in status submitted''))"

text \<open>
  Modelled from the spec: unlock requires status submitted or paid, clears the lock and the
  submission time, and leaves the sales as they are.
\<close>

definition unlock :: "string \<Rightarrow> ledger \<Rightarrow> payroll_error + ledger" where
  "unlock payPeriod l =
     (case payroll l payPeriod of
        None \<Rightarrow> Inl (PayrollStateConflict ''there is no submitted payroll for this period'')
      | Some r \<Rightarrow>
          if pr_status r = Submitted \<or> pr_status r = Paid
          then Inr (l\<lparr>payroll := (payroll l)(payPeriod \<mapsto>
                      r\<lparr>pr_status := Draft, pr_is_locked := False, pr_submitted_at := None\<rparr>)\<rparr>)
          else Inl (PayrollStateConflict ''there is no submitted payroll for this period''))"

text \<open>
  Modelled from the spec: a request against the stored ledger. A rejection answers with
  the error and stores nothing.
\<close>

definition serve :: "(ledger \<Rightarrow> payroll_error + ledger) \<Rightarrow> ledger \<Rightarrow> ledger \<times> payroll_error option" where
  "serve transition l =
     (case transition l of Inl e \<Rightarrow> (l, Some e) | Inr l' \<Rightarrow> (l', None))"

text \<open>Modelled from the spec: the name of a status as the client receives it.\<close>

definition status_name :: "pay_status \<Rightarrow> string" where
  "status_name s = (case s of Draft \<Rightarrow> ''draft'' | Submitted \<Rightarrow> ''submitted'' | Paid \<Rightarrow> ''paid'')"

text \<open>
  Modelled from the spec: the payroll detail a client receives for a period, in the shape
  the payroll controls read; nothing when the period has no record.
\<close>

definition detail :: "ledger \<Rightarrow> string \<Rightarrow> payroll_status option" where
  "detail l payPeriod =
     map_option
       (\<lambda>r. \<lparr>status = status_name (pr_status r), is_locked = pr_is_locked r,
              submitted_at = map_option show_nat (pr_submitted_at r),
              paid_at = map_option show_nat (pr_paid_at r)\<rparr>)
       (payroll l payPeriod)"

subsection \<open>The agent pay tab\<close>

text \<open>
  The calculation summary as \<^verbatim>\<open>AgentPayTab\<close> reads it, and one of its
  \<^verbatim>\<open>agent_summaries\<close> (whose \<^verbatim>\<open>total_premium\<close> is \<open>this_month_premium\<close> here).
\<close>

record pay_summary =
  tier_based_on :: "string option"
  prior_period :: "string option"

record pay_agent =
  prior_month_premium :: jsnum
  this_month_premium :: jsnum

text \<open>\<^verbatim>\<open>a || b\<close> on optional strings: the empty string is falsy.\<close>

definition js_or_str :: "string option \<Rightarrow> string option \<Rightarrow> string option" where
  "js_or_str a b = (case a of None \<Rightarrow> b | Some x \<Rightarrow> if x = [] then b else Some x)"

text \<open>
  The line \<^verbatim>\<open>Rates based on {summary.tier_based_on || summary.prior_period} written premium\<close>
  (a missing value renders as nothing), and the two premium figures of an agent card.
\<close>

definition rates_based_on :: "pay_summary \<Rightarrow> string" where
  "rates_based_on summary =
     ''Rates based on ''
       @ (case js_or_str (tier_based_on summary) (prior_period summary) of
            None \<Rightarrow> [] | Some basis \<Rightarrow> basis)
       @ '' written premium''"

definition shown_prior_month_premium :: "pay_agent \<Rightarrow> real" where
  "shown_prior_month_premium a = num_or0 (prior_month_premium a)"

definition shown_this_month_premium :: "pay_agent \<Rightarrow> real" where
  "shown_this_month_premium a = num_or0 (this_month_premium a)"

subsection \<open>The tier resolver\<close>

text \<open>
  Modelled from the spec: the tier resolver runs in the backend, which is not among the
  sources. A period is a year and a month (1 to 12); the month before January is December
  of the year before.
\<close>

type_synonym period = "nat \<times> nat"

text \<open>Modelled from the spec: a period whose month is one of the twelve.\<close>

definition valid_period :: "period \<Rightarrow> bool" where
  "valid_period p = (1 \<le> snd p \<and> snd p \<le> 12)"

text \<open>Modelled from the spec: the month prior to a period, the one-month lookback.\<close>

definition prior_period_of :: "period \<Rightarrow> period" where
  "prior_period_of p = (if snd p = 1 then (fst p - 1, 12) else (fst p, snd p - 1))"

text \<open>Modelled from the spec: the CommissionTier entity of section 3.\<close>

record CommissionTier =
  tier_level :: nat
  min_written_premium :: real
  max_written_premium :: "real option"
  tier_rate :: real

text \<open>
  Modelled from the spec: a tier holds a premium from its minimum up to, and not including,
  its maximum; the top tier has no maximum.
\<close>

definition in_tier :: "real \<Rightarrow> CommissionTier \<Rightarrow> bool" where
  "in_tier premium t =
     (min_written_premium t \<le> premium
      \<and> (case max_written_premium t of None \<Rightarrow> True | Some m \<Rightarrow> premium < m))"

text \<open>
  Modelled from the spec: the lookup of a premium in the ordered tiers; nothing when no tier
  holds it.
\<close>

definition find_tier :: "CommissionTier list \<Rightarrow> real \<Rightarrow> CommissionTier option" where
  "find_tier tiers premium = find (in_tier premium) tiers"

text \<open>Modelled from the spec: the part of the Sale entity that the resolver reads.\<close>

record Sale =
  sale_id :: nat
  policy_number :: string
  written_premium :: real
  producer :: nat
  sale_period :: period

text \<open>Modelled from the spec: an agent's total written premium in a month.\<close>

definition written_premium_in :: "Sale list \<Rightarrow> nat \<Rightarrow> period \<Rightarrow> real" where
  "written_premium_in ss agentId p =
     sum_list (map written_premium (filter (\<lambda>s. producer s = agentId \<and> sale_period s = p) ss))"

text \<open>
  Modelled from the spec: the rate in effect for an agent and a target period, from the
  written premium of the month before; no rate when no tier holds it.
\<close>

definition resolve_tier :: "CommissionTier list \<Rightarrow> Sale list \<Rightarrow> nat \<Rightarrow> period \<Rightarrow> CommissionTier option" where
  "resolve_tier tiers ss agentId target =
     find_tier tiers (written_premium_in ss agentId (prior_period_of target))"

text \<open>Modelled from the spec: the commission rate of the resolved tier.\<close>

definition resolve_rate :: "CommissionTier list \<Rightarrow> Sale list \<Rightarrow> nat \<Rightarrow> period \<Rightarrow> real option" where
  "resolve_rate tiers ss agentId target = map_option tier_rate (resolve_tier tiers ss agentId target)"

subsection \<open>The commission calculator\<close>

text \<open>
  Modelled from the spec: the commission calculator runs in the backend, which is not among
  the sources. A matched statement line carries a signed premium and, where the statement
  dictates the split, the agent's commission.
\<close>

record StatementLine =
  line_id :: nat
  premium_amount :: real
  commission_amount :: real
  assigned_agent_id :: "nat option"
  agent_commission :: "real option"

text \<open>
  Modelled from the spec: the agent's commission of one line, at the resolved rate where
  the statement does not dictate it.
\<close>

definition line_agent_commission :: "real \<Rightarrow> StatementLine \<Rightarrow> real" where
  "line_agent_commission rate sl =
     (case agent_commission sl of None \<Rightarrow> premium_amount sl * rate | Some c \<Rightarrow> c)"

text \<open>
  Modelled from the spec: the AgentCommissionSummary entity of section 3, without the agent's
  identity, the tier level and the per-carrier breakdown.
\<close>

record AgentCommissionSummary =
  acs_commission_rate :: real
  acs_rate_adjustment :: real
  acs_bonus :: real
  line_count :: nat
  acs_total_premium :: real
  acs_total_agent_commission :: real
  acs_net_agent_commission :: real
  chargeback_count :: nat
  chargeback_premium :: real

text \<open>
  Modelled from the spec: the summary of one agent's lines (section 4.4 and the function
  \<^verbatim>\<open>computeAgentCommission(lines, rate, adjustment, bonus)\<close> of section 9). Every line
  is summed with its sign; chargebacks are counted on the side; the rate adjustment applies
  to the premium base; nothing is floored.
\<close>

definition computeAgentCommission ::
    "StatementLine list \<Rightarrow> real \<Rightarrow> real \<Rightarrow> real \<Rightarrow> AgentCommissionSummary" where
  "computeAgentCommission lns rate adjustment flat =
     (let premium = sum_list (map premium_amount lns);
          commission = sum_list (map (line_agent_commission rate) lns);
          chargebacks = filter (\<lambda>sl. premium_amount sl < 0) lns
      in \<lparr>acs_commission_rate = rate, acs_rate_adjustment = adjustment, acs_bonus = flat,
          line_count = length lns,
          acs_total_premium = premium,
          acs_total_agent_commission = commission,
          acs_net_agent_commission = commission + premium * adjustment + flat,
          chargeback_count = length chargebacks,
          chargeback_premium = sum_list (map premium_amount chargebacks)\<rparr>)"

text \<open>
  Modelled from the spec: the entry of \<^verbatim>\<open>agent_summaries\<close> that the monthly-pay view
  receives for an agent, with the totals before the manual overrides of the view.
\<close>

definition summary_entry :: "nat \<Rightarrow> AgentCommissionSummary \<Rightarrow> agent" where
  "summary_entry agentId s =
     \<lparr>agent_id = agentId,
      net_agent_commission = Num (acs_net_agent_commission s),
      total_agent_commission = Num (acs_total_agent_commission s),
      commission_rate = Num (acs_commission_rate s)\<rparr>"

text \<open>
  The three default tiers of the README: up to 50K at 10%, from 50K up to 100K at 12.5%,
  from 100K at 15%.
\<close>

definition default_tiers :: "CommissionTier list" where
  "default_tiers =
     [\<lparr>tier_level = 1, min_written_premium = 0, max_written_premium = Some 50000,
       tier_rate = 1/10\<rparr>,
      \<lparr>tier_level = 2, min_written_premium = 50000, max_written_premium = Some 100000,
       tier_rate = 1/8\<rparr>,
      \<lparr>tier_level = 3, min_written_premium = 100000, max_written_premium = None,
       tier_rate = 3/20\<rparr>]"

text \<open>
  Modelled from the spec: a matched line with the given premium, on which the statement
  dictates no split (the synthetic lines of section 8).
\<close>

definition statement_line :: "real \<Rightarrow> StatementLine" where
  "statement_line premium =
     \<lparr>line_id = 0, premium_amount = premium, commission_amount = 0,
      assigned_agent_id = Some 0, agent_commission = None\<rparr>"

section \<open>Properties\<close>

lemma js_or0_None [simp]: "js_or0 None = 0"
  by (simp add: js_or0_def)

lemma js_or0_Some [simp]: "js_or0 (Some x) = x"
  by (simp add: js_or0_def)

text \<open>
  C1. For an agent summary whose base commission rate is a nonzero number, the net agent pay
  is the commissionable premium base (base pay divided by the base rate) times the sum of the
  base rate and the rate adjustment, plus the bonus; with a zero adjustment that is base pay
  plus bonus. An agent with no entry in the rate adjustments or in the bonuses has
  adjustment zero, respectively bonus zero. (The base pay enters as the number it stands
  for; a missing base pay gives NaN on both sides.)
\<close>

theorem adjusted_commission_formula:
  assumes "commission_rate a = Num r" and "r \<noteq> 0"
  shows "getAdjustedCommission ra bo a
           = map_option
               (\<lambda>b. (b / r) * (r + getAdjustment ra (agent_id a)) + getBonus bo (agent_id a))
               (to_number (basePay a))
         \<and> (getAdjustment ra (agent_id a) = 0 \<longrightarrow>
              getAdjustedCommission ra bo a = js_plus (basePay a) (getBonus bo (agent_id a)))
         \<and> (map_of ra (agent_id a) = None \<longrightarrow> getAdjustment ra (agent_id a) = 0)
         \<and> (map_of bo (agent_id a) = None \<longrightarrow> getBonus bo (agent_id a) = 0)"
  using assms
  by (cases "to_number (basePay a)")
     (simp_all add: getAdjustedCommission_def Let_def js_plus_def getAdjustment_def getBonus_def)

theorem adjusted_commission_formula_witness:
  "getAdjustedCommission [(7, 1/200)] [(7, 25)]
     \<lparr>agent_id = 7, net_agent_commission = Num 100, total_agent_commission = Num 90,
      commission_rate = Num (1/10)\<rparr> = Some 130
   \<and> getAdjustedCommission [] [(7, 25)]
     \<lparr>agent_id = 7, net_agent_commission = Num 100, total_agent_commission = Num 90,
      commission_rate = Num (1/10)\<rparr> = Some 125"
proof -
  let ?a = "\<lparr>agent_id = 7, net_agent_commission = Num 100, total_agent_commission = Num 90,
      commission_rate = Num (1/10)\<rparr>"
  have r: "commission_rate ?a = Num (1/10)" "(1/10::real) \<noteq> 0" by simp_all
  have b: "to_number (basePay ?a) = Some 100"
    by (simp add: basePay_def js_or_def js_falsy_def to_number_def)
  have "getAdjustedCommission [(7, 1/200)] [(7, 25)] ?a = Some 130"
    using adjusted_commission_formula [OF r, of "[(7, 1/200)]" "[(7, 25)]"] b
    by (simp add: getAdjustment_def getBonus_def)
  moreover have "getAdjustedCommission [] [(7, 25)] ?a = Some 125"
    using adjusted_commission_formula [OF r, of "[]" "[(7, 25)]"] b
    by (simp add: getAdjustment_def getBonus_def js_plus_def)
  ultimately show ?thesis by simp
qed

text \<open>
  C9. When the agent's base commission rate is zero or missing, the division by the rate is
  not performed: the result is base pay plus bonus whatever the rate adjustment is, and it
  is a number (not NaN) whenever the base pay is one.
\<close>

theorem zero_rate_ignores_adjustment:
  assumes "js_falsy (commission_rate a)"
  shows "getAdjustedCommission ra bo a = js_plus (basePay a) (getBonus bo (agent_id a))
         \<and> (\<forall>b. to_number (basePay a) = Some b \<longrightarrow>
               getAdjustedCommission ra bo a = Some (b + getBonus bo (agent_id a)))"
  using assms
  by (cases "commission_rate a")
     (auto simp add: getAdjustedCommission_def Let_def js_plus_def js_falsy_def)

theorem zero_rate_ignores_adjustment_witness:
  "getAdjustedCommission [(7, 1/200)] [(7, 25)]
     \<lparr>agent_id = 7, net_agent_commission = Undefined, total_agent_commission = Num 90,
      commission_rate = Num 0\<rparr> = Some 115
   \<and> getAdjustedCommission [(7, 1/200)] []
     \<lparr>agent_id = 7, net_agent_commission = Num 100, total_agent_commission = Undefined,
      commission_rate = Undefined\<rparr> = Some 100"
proof -
  let ?a = "\<lparr>agent_id = 7, net_agent_commission = Undefined, total_agent_commission = Num 90,
      commission_rate = Num 0\<rparr>"
  let ?b = "\<lparr>agent_id = 7, net_agent_commission = Num 100, total_agent_commission = Undefined,
      commission_rate = Undefined\<rparr>"
  have f: "js_falsy (commission_rate ?a)" "js_falsy (commission_rate ?b)"
    by (simp_all add: js_falsy_def)
  have "getAdjustedCommission [(7, 1/200)] [(7, 25)] ?a = Some 115"
    using zero_rate_ignores_adjustment [OF f(1), of "[(7, 1/200)]" "[(7, 25)]"]
    by (simp add: basePay_def js_or_def js_plus_def js_falsy_def to_number_def getBonus_def)
  moreover have "getAdjustedCommission [(7, 1/200)] [] ?b = Some 100"
    using zero_rate_ignores_adjustment [OF f(2), of "[(7, 1/200)]" "[]"]
    by (simp add: basePay_def js_or_def js_plus_def js_falsy_def to_number_def getBonus_def)
  ultimately show ?thesis by simp
qed

subsection \<open>Decimal strings are injective\<close>





subsection \<open>The override map\<close>









subsection \<open>Requests carry only nonzero overrides\<close>






subsection \<open>The match response\<close>





subsection \<open>Uploading a statement\<close>

lemma handleUpload_confirmed:
  "handleUpload imports c p (Some f) True server
     = (case find_existing imports c p of
          None \<Rightarrow> []
        | Some existing \<Rightarrow> [Confirm (duplicate_prompt c p existing)])
       @ do_upload c p f server"
  by (simp add: handleUpload_def split: option.splits)



text \<open>
  C7. When the upload response flags that the detected carrier overrode the selected one,
  the handler reports both carriers to the caller in one alert and goes on as after any
  successful upload (reload, select and open the new import): an advisory, not a failure.
\<close>

theorem carrier_override_advisory:
  assumes "carrier_overridden res"
  shows "handleUpload imports c p (Some f) True (Ok res)
           = (case find_existing imports c p of
                None \<Rightarrow> []
              | Some existing \<Rightarrow> [Confirm (duplicate_prompt c p existing)])
             @ [SetUploading True, Upload c p f, Alert (override_alert res), LoadImports,
                SetSelectedImport (res_id res), LoadDetail (res_id res),
                SetUploading False, ResetInput]
         \<and> override_alert res
             = ''Auto-detected: File looks like '' @ carrier_label (carrier_detected res)
                 @ '' (you selected '' @ carrier_label (carrier_selected res)
                 @ ''). Used '' @ carrier_label (carrier_detected res) @ '' parser.''
         \<and> do_upload c p f (Ok res)
             = take 2 (do_upload c p f (Ok (res\<lparr>carrier_overridden := False\<rparr>)))
               @ Alert (override_alert res)
               # drop 2 (do_upload c p f (Ok (res\<lparr>carrier_overridden := False\<rparr>)))"
  using assms
  by (simp add: handleUpload_confirmed do_upload_def override_alert_def Let_def)

theorem carrier_override_advisory_witness:
  "handleUpload [] ''grange'' ''2024-01'' (Some ''january.csv'') True
     (Ok \<lparr>res_id = 4, carrier_overridden = True, carrier_detected = ''progressive'',
          carrier_selected = ''grange''\<rparr>)
   = [SetUploading True, Upload ''grange'' ''2024-01'' ''january.csv'',
      Alert ''Auto-detected: File looks like Progressive (you selected Grange). Used Progressive parser.'',
      LoadImports, SetSelectedImport 4, LoadDetail 4, SetUploading False, ResetInput]"
proof -
  let ?res = "\<lparr>res_id = 4, carrier_overridden = True, carrier_detected = ''progressive'',
          carrier_selected = ''grange''\<rparr>"
  have o: "carrier_overridden ?res" by simp
  show ?thesis
    using carrier_override_advisory [OF o, of "[]" "''grange''" "''2024-01''" "''january.csv''"]
    by (simp add: find_existing_def carrier_label_def CARRIERS_def)
qed


subsection \<open>The payroll ledger and its controls\<close>

lemma status_name_submitted: "status_name s = ''submitted'' \<longleftrightarrow> s = Submitted"
  by (cases s) (simp_all add: status_name_def)

lemma mark_paid_accepts:
  "(\<exists>l'. mark_paid now p l = Inr l') \<longleftrightarrow> (\<exists>r. payroll l p = Some r \<and> pr_status r = Submitted)"
  by (simp add: mark_paid_def split: option.splits)

lemma submit_accepts:
  "(\<exists>l'. submit now p ov calc l = Inr l') \<longleftrightarrow> \<not> (\<exists>r. payroll l p = Some r \<and> pr_is_locked r)"
  by (simp add: submit_def split: option.splits)

lemma mark_paid_rejects:
  "\<not> (\<exists>l'. mark_paid now p l = Inr l') \<Longrightarrow>
     \<exists>msg. msg \<noteq> [] \<and> serve (mark_paid now p) l = (l, Some (PayrollStateConflict msg))"
  by (auto simp add: mark_paid_def serve_def split: option.splits if_splits)

lemma submit_rejects:
  "\<not> (\<exists>l'. submit now p ov calc l = Inr l') \<Longrightarrow>
     \<exists>msg. msg \<noteq> [] \<and> serve (submit now p ov calc) l = (l, Some (PayrollStateConflict msg))"
  by (auto simp add: submit_def serve_def Let_def split: option.splits if_splits)

text \<open>
  C4. The ledger accepts mark_paid for a period exactly when its record has status
  submitted, and submit exactly when the period is not locked; a rejected transition
  answers with a PayrollStateConflict that carries a message and leaves the ledger as it
  was. In the payroll controls, Mark as Paid is offered exactly when the status is
  'submitted', Submit Payroll exactly when there is no payroll record or it is not locked,
  and Unlock exactly when the record is locked; on the detail of a ledger, the first two
  are offered exactly when the ledger accepts them.
\<close>

theorem payroll_transitions_guarded:
  "((\<exists>l'. mark_paid now p l = Inr l') \<longleftrightarrow> (\<exists>r. payroll l p = Some r \<and> pr_status r = Submitted))
   \<and> ((\<exists>l'. submit now p ov calc l = Inr l') \<longleftrightarrow> \<not> (\<exists>r. payroll l p = Some r \<and> pr_is_locked r))
   \<and> (\<not> (\<exists>l'. mark_paid now p l = Inr l') \<longrightarrow>
        (\<exists>msg. msg \<noteq> [] \<and> serve (mark_paid now p) l = (l, Some (PayrollStateConflict msg))))
   \<and> (\<not> (\<exists>l'. submit now p ov calc l = Inr l') \<longrightarrow>
        (\<exists>msg. msg \<noteq> [] \<and> serve (submit now p ov calc) l = (l, Some (PayrollStateConflict msg))))
   \<and> (shows_mark_paid ps \<longleftrightarrow> (\<exists>s. ps = Some s \<and> status s = ''submitted''))
   \<and> (shows_submit ps \<longleftrightarrow> ps = None \<or> (\<exists>s. ps = Some s \<and> \<not> is_locked s))
   \<and> (shows_unlock ps \<longleftrightarrow> (\<exists>s. ps = Some s \<and> is_locked s))
   \<and> (shows_mark_paid (detail l p) \<longleftrightarrow> (\<exists>l'. mark_paid now p l = Inr l'))
   \<and> (shows_submit (detail l p) \<longleftrightarrow> (\<exists>l'. submit now p ov calc l = Inr l'))"
proof -
  have a: "shows_mark_paid ps \<longleftrightarrow> (\<exists>s. ps = Some s \<and> status s = ''submitted'')"
    by (cases ps) (simp_all add: shows_mark_paid_def)
  have b: "shows_submit ps \<longleftrightarrow> ps = None \<or> (\<exists>s. ps = Some s \<and> \<not> is_locked s)"
    by (cases ps) (simp_all add: shows_submit_def)
  have c: "shows_unlock ps \<longleftrightarrow> (\<exists>s. ps = Some s \<and> is_locked s)"
    by (cases ps) (simp_all add: shows_unlock_def)
  have d: "shows_mark_paid (detail l p) \<longleftrightarrow> (\<exists>l'. mark_paid now p l = Inr l')"
    unfolding mark_paid_accepts
    by (cases "payroll l p") (simp_all add: shows_mark_paid_def detail_def status_name_submitted)
  have e: "shows_submit (detail l p) \<longleftrightarrow> (\<exists>l'. submit now p ov calc l = Inr l')"
    unfolding submit_accepts
    by (cases "payroll l p") (simp_all add: shows_submit_def detail_def)
  have f: "\<not> (\<exists>l'. mark_paid now p l = Inr l') \<longrightarrow>
        (\<exists>msg. msg \<noteq> [] \<and> serve (mark_paid now p) l = (l, Some (PayrollStateConflict msg)))"
    using mark_paid_rejects by blast
  have g: "\<not> (\<exists>l'. submit now p ov calc l = Inr l') \<longrightarrow>
        (\<exists>msg. msg \<noteq> [] \<and> serve (submit now p ov calc) l = (l, Some (PayrollStateConflict msg)))"
    using submit_rejects by blast
  show ?thesis
    by (intro conjI) (fact mark_paid_accepts submit_accepts a b c d e f g)+
qed

theorem payroll_transitions_guarded_witness:
  "fst (serve (mark_paid 5 ''2024-01'') \<lparr>payroll = Map.empty, sales = Map.empty\<rparr>)
     = \<lparr>payroll = Map.empty, sales = Map.empty\<rparr>
   \<and> snd (serve (mark_paid 5 ''2024-01'') \<lparr>payroll = Map.empty, sales = Map.empty\<rparr>) \<noteq> None
   \<and> shows_submit (detail \<lparr>payroll = Map.empty, sales = Map.empty\<rparr> ''2024-01'')
   \<and> \<not> shows_mark_paid (detail \<lparr>payroll = Map.empty, sales = Map.empty\<rparr> ''2024-01'')"
proof -
  let ?l = "\<lparr>payroll = Map.empty, sales = Map.empty\<rparr>"
  have n: "\<not> (\<exists>l'. mark_paid 5 ''2024-01'' ?l = Inr l')"
    by (simp add: mark_paid_def)
  have "\<exists>msg. msg \<noteq> [] \<and> serve (mark_paid 5 ''2024-01'') ?l = (?l, Some (PayrollStateConflict msg))"
    using payroll_transitions_guarded [of 5 "''2024-01''" ?l, THEN conjunct2, THEN conjunct2,
        THEN conjunct1] n by blast
  then have "fst (serve (mark_paid 5 ''2024-01'') ?l) = ?l"
    and "snd (serve (mark_paid 5 ''2024-01'') ?l) \<noteq> None"
    by auto
  moreover have "shows_submit (detail ?l ''2024-01'')" "\<not> shows_mark_paid (detail ?l ''2024-01'')"
    by (simp_all add: detail_def shows_submit_def shows_mark_paid_def)
  ultimately show ?thesis by simp
qed

subsection \<open>The tier lookback\<close>

lemma prior_period_of_differs: "valid_period p \<Longrightarrow> prior_period_of p \<noteq> p"
  by (cases p) (auto simp add: valid_period_def prior_period_of_def)

lemma written_premium_in_other_period:
  "sale_period s \<noteq> p \<Longrightarrow> written_premium_in (s # ss) a p = written_premium_in ss a p"
  by (simp add: written_premium_in_def)

text \<open>
  C3. The rate for an agent and a target period is the rate of the tier that holds the
  agent's total written premium of the month before the target period (December of the
  year before, for a January). Sales of any other month, the target month among them, do
  not change it. The agent pay tab names the basis of the rates from the summary's
  \<open>tier_based_on\<close>, or else its \<open>prior_period\<close>.
\<close>

theorem tier_rate_from_prior_month:
  assumes "valid_period target"
  shows "resolve_rate tiers ss a target
           = map_option tier_rate
               (find (in_tier (written_premium_in ss a (prior_period_of target))) tiers)
         \<and> prior_period_of target \<noteq> target
         \<and> prior_period_of target
             = (if snd target = 1 then (fst target - 1, 12) else (fst target, snd target - 1))
         \<and> (sale_period s \<noteq> prior_period_of target \<longrightarrow>
              resolve_rate tiers (s # ss) a target = resolve_rate tiers ss a target)
         \<and> (sale_period s = target \<longrightarrow>
              resolve_rate tiers (s # ss) a target = resolve_rate tiers ss a target)
         \<and> rates_based_on \<lparr>tier_based_on = None, prior_period = Some basis\<rparr>
             = ''Rates based on '' @ basis @ '' written premium''"
proof -
  have d: "prior_period_of target \<noteq> target"
    using assms by (rule prior_period_of_differs)
  have o: "resolve_rate tiers (s # ss) a target = resolve_rate tiers ss a target"
    if "sale_period s \<noteq> prior_period_of target"
    using that by (simp add: resolve_rate_def resolve_tier_def written_premium_in_other_period)
  have r: "resolve_rate tiers ss a target
           = map_option tier_rate
               (find (in_tier (written_premium_in ss a (prior_period_of target))) tiers)"
    by (simp add: resolve_rate_def resolve_tier_def find_tier_def)
  have l: "rates_based_on \<lparr>tier_based_on = None, prior_period = Some basis\<rparr>
             = ''Rates based on '' @ basis @ '' written premium''"
    by (simp add: rates_based_on_def js_or_str_def)
  show ?thesis
    using d o r l by (simp add: prior_period_of_def)
qed

theorem tier_rate_from_prior_month_witness:
  "resolve_rate default_tiers
     [\<lparr>sale_id = 2, policy_number = ''POL-2'', written_premium = 10000, producer = 7,
       sale_period = (2024, 1)\<rparr>,
      \<lparr>sale_id = 1, policy_number = ''POL-1'', written_premium = 60000, producer = 7,
       sale_period = (2023, 12)\<rparr>] 7 (2024, 1) = Some (1/8)"
proof -
  let ?jan = "\<lparr>sale_id = 2, policy_number = ''POL-2'', written_premium = 10000, producer = 7,
       sale_period = (2024, 1)\<rparr>"
  let ?dec = "\<lparr>sale_id = 1, policy_number = ''POL-1'', written_premium = 60000, producer = 7,
       sale_period = (2023, 12)\<rparr>"
  have v: "valid_period (2024, 1)" by (simp add: valid_period_def)
  have "resolve_rate default_tiers [?jan, ?dec] 7 (2024, 1)
          = resolve_rate default_tiers [?dec] 7 (2024, 1)"
    using tier_rate_from_prior_month [OF v, of default_tiers "[?dec]" 7 ?jan] by simp
  also have "\<dots> = Some (1/8)"
    by (simp add: resolve_rate_def resolve_tier_def find_tier_def written_premium_in_def
        prior_period_of_def default_tiers_def in_tier_def)
  finally show ?thesis .
qed

subsection \<open>Signed sums\<close>

lemma commission_at_rate:
  "\<forall>sl \<in> set lns. agent_commission sl = None \<Longrightarrow>
     sum_list (map (line_agent_commission rate) lns) = sum_list (map premium_amount lns) * rate"
  by (induction lns) (simp_all add: line_agent_commission_def distrib_right)

text \<open>
  C2. Every line is summed into the agent's total with its sign: a line with a negative
  premium, paid at a positive rate, lowers the total, and when the premiums sum to less
  than zero so does the agent's net commission, which is not floored; the monthly-pay view
  shows that figure as it is. For the premiums 1000, 500 and -300 the net commission is
  1200 times the rate, less than the 1500 times the rate of the two positive lines.
\<close>

theorem signed_sum_not_floored:
  assumes "0 < rate"
  shows "acs_total_agent_commission (computeAgentCommission (sl # lns) rate adj flat)
           = line_agent_commission rate sl
             + acs_total_agent_commission (computeAgentCommission lns rate adj flat)
         \<and> (premium_amount sl < 0 \<and> agent_commission sl = None \<longrightarrow>
              acs_total_agent_commission (computeAgentCommission (sl # lns) rate adj flat)
                < acs_total_agent_commission (computeAgentCommission lns rate adj flat))
         \<and> ((\<forall>x \<in> set lns. agent_commission x = None) \<and> sum_list (map premium_amount lns) < 0
              \<longrightarrow> acs_net_agent_commission (computeAgentCommission lns rate 0 0) < 0)
         \<and> getAdjustedCommission [] [] (summary_entry a (computeAgentCommission lns rate 0 0))
             = Some (acs_net_agent_commission (computeAgentCommission lns rate 0 0))
         \<and> acs_net_agent_commission
             (computeAgentCommission [statement_line 1000, statement_line 500, statement_line (- 300)]
                rate 0 0) = 1200 * rate
         \<and> acs_net_agent_commission
             (computeAgentCommission [statement_line 1000, statement_line 500] rate 0 0)
             = 1500 * rate
         \<and> acs_net_agent_commission
             (computeAgentCommission [statement_line 1000, statement_line 500, statement_line (- 300)]
                rate 0 0)
           < acs_net_agent_commission
               (computeAgentCommission [statement_line 1000, statement_line 500] rate 0 0)"
proof -
  have s1: "acs_total_agent_commission (computeAgentCommission (sl # lns) rate adj flat)
           = line_agent_commission rate sl
             + acs_total_agent_commission (computeAgentCommission lns rate adj flat)"
    by (simp add: computeAgentCommission_def Let_def)
  have s2: "premium_amount sl < 0 \<and> agent_commission sl = None \<longrightarrow>
              acs_total_agent_commission (computeAgentCommission (sl # lns) rate adj flat)
                < acs_total_agent_commission (computeAgentCommission lns rate adj flat)"
    using assms
    by (simp add: computeAgentCommission_def Let_def line_agent_commission_def
        mult_neg_pos)
  have s3: "(\<forall>x \<in> set lns. agent_commission x = None) \<and> sum_list (map premium_amount lns) < 0
              \<longrightarrow> acs_net_agent_commission (computeAgentCommission lns rate 0 0) < 0"
    using assms
    by (simp add: computeAgentCommission_def Let_def commission_at_rate mult_neg_pos)
  have s4: "getAdjustedCommission [] [] (summary_entry a (computeAgentCommission lns rate 0 0))
             = Some (acs_net_agent_commission (computeAgentCommission lns rate 0 0))"
    by (simp add: getAdjustedCommission_def getAdjustment_def getBonus_def basePay_def
        js_or_def js_plus_def js_falsy_def to_number_def summary_entry_def
        computeAgentCommission_def Let_def)
  have s5: "acs_net_agent_commission
             (computeAgentCommission [statement_line 1000, statement_line 500, statement_line (- 300)]
                rate 0 0) = 1200 * rate"
    by (simp add: computeAgentCommission_def Let_def line_agent_commission_def
        statement_line_def)
  have s6: "acs_net_agent_commission
             (computeAgentCommission [statement_line 1000, statement_line 500] rate 0 0)
             = 1500 * rate"
    by (simp add: computeAgentCommission_def Let_def line_agent_commission_def
        statement_line_def)
  have s7: "acs_net_agent_commission
             (computeAgentCommission [statement_line 1000, statement_line 500, statement_line (- 300)]
                rate 0 0)
           < acs_net_agent_commission
               (computeAgentCommission [statement_line 1000, statement_line 500] rate 0 0)"
    unfolding s5 s6 using assms by simp
  show ?thesis
    by (intro conjI) (fact s1 s2 s3 s4 s5 s6 s7)+
qed

theorem signed_sum_not_floored_witness:
  "acs_net_agent_commission
     (computeAgentCommission [statement_line 100, statement_line (- 300)] (1/10) 0 0) = - 20
   \<and> getAdjustedCommission [] []
       (summary_entry 7
          (computeAgentCommission [statement_line 100, statement_line (- 300)] (1/10) 0 0))
     = Some (- 20)
   \<and> acs_net_agent_commission
       (computeAgentCommission [statement_line 1000, statement_line 500, statement_line (- 300)]
          (1/10) 0 0) = 120"
proof -
  have r: "(0::real) < 1/10" by simp
  note t = signed_sum_not_floored [OF r]
  have n: "acs_net_agent_commission
     (computeAgentCommission [statement_line 100, statement_line (- 300)] (1/10) 0 0) = - 20"
    by (simp add: computeAgentCommission_def Let_def line_agent_commission_def
        statement_line_def)
  have "getAdjustedCommission [] []
       (summary_entry 7
          (computeAgentCommission [statement_line 100, statement_line (- 300)] (1/10) 0 0))
     = Some (- 20)"
    using t [where a = 7 and lns = "[statement_line 100, statement_line (- 300)]",
        THEN conjunct2, THEN conjunct2, THEN conjunct2, THEN conjunct1] n
    by simp
  moreover have "acs_net_agent_commission
       (computeAgentCommission [statement_line 1000, statement_line 500, statement_line (- 300)]
          (1/10) 0 0) = 120"
    using t [THEN conjunct2, THEN conjunct2, THEN conjunct2, THEN conjunct2, THEN conjunct1]
    by simp
  ultimately show ?thesis using n by simp
qed

end
